theory Spec2Isabelle
  imports Main "HOL-Library.List_Lexorder"
begin

section \<open>Python strings and values\<close>

text \<open>
  The plugin of \<^verbatim>\<open>main.py\<close> reads an untyped OneBot payload, a JSON
  configuration and JSON blacklist files. A Python \<^verbatim>\<open>str\<close> is the list of its code
  points, among them the surrogates 55296 to 57343 that a \<^verbatim>\<open>str\<close> may hold and
  UTF-8 cannot encode. \<open>lit\<close> turns an ASCII literal into such a list. Strings
  compare as Python compares them, code point by code point.
\<close>

type_synonym pystr = "nat list"

definition lit :: "string \<Rightarrow> pystr" where
  "lit s = map of_char s"

definition surrogate :: "nat \<Rightarrow> bool" where
  "surrogate c = (55296 \<le> c \<and> c \<le> 57343)"

text \<open>Whether \<^verbatim>\<open>s.encode("utf-8")\<close> succeeds.\<close>

definition utf8_encodable :: "pystr \<Rightarrow> bool" where
  "utf8_encodable s = list_all (\<lambda>c. \<not> surrogate c) s"

text \<open>
  The values of the payload, of the configuration and of a parsed file are the JSON
  scalars \<^verbatim>\<open>None\<close>, booleans, integers and strings. Floats and the text that
  \<^verbatim>\<open>str()\<close> gives for a nested list or dict are outside the model.
\<close>

datatype pyval = PNone | PBool bool | PInt int | PStr pystr

text \<open>Truth value of a Python object, as \<^verbatim>\<open>if x\<close>, \<^verbatim>\<open>not x\<close> and \<^verbatim>\<open>or\<close> use it.\<close>

fun truthy :: "pyval \<Rightarrow> bool" where
  "truthy PNone = False"
| "truthy (PBool b) = b"
| "truthy (PInt i) = (i \<noteq> 0)"
| "truthy (PStr s) = (s \<noteq> [])"

definition py_or :: "pyval \<Rightarrow> pyval \<Rightarrow> pyval" where
  "py_or a b = (if truthy a then a else b)"

text \<open>The decimal digits are the code points 48 to 57; the minus sign is 45.\<close>

fun str_nat :: "nat \<Rightarrow> pystr" where
  "str_nat n = (if n < 10 then [48 + n] else str_nat (n div 10) @ [48 + n mod 10])"

declare str_nat.simps [simp del]

definition str_int :: "int \<Rightarrow> pystr" where
  "str_int i = (if i < 0 then 45 # str_nat (nat (- i)) else str_nat (nat i))"

text \<open>\<^verbatim>\<open>str(x)\<close>.\<close>

fun py_str :: "pyval \<Rightarrow> pystr" where
  "py_str PNone = lit ''None''"
| "py_str (PBool b) = (if b then lit ''True'' else lit ''False'')"
| "py_str (PInt i) = str_int i"
| "py_str (PStr s) = s"

text \<open>
  \<^verbatim>\<open>str.strip()\<close> removes the white space of both ends. The characters with
  \<^verbatim>\<open>isspace()\<close> are the code points 9 to 13, 28 to 32, 133, 160, 5760, 8192 to 8202,
  8232, 8233, 8239, 8287 and 12288.
\<close>

definition isspace :: "nat \<Rightarrow> bool" where
  "isspace c = ((9 \<le> c \<and> c \<le> 13) \<or> (28 \<le> c \<and> c \<le> 32) \<or> c = 133 \<or> c = 160 \<or> c = 5760
                \<or> (8192 \<le> c \<and> c \<le> 8202) \<or> c = 8232 \<or> c = 8233 \<or> c = 8239 \<or> c = 8287
                \<or> c = 12288)"

definition strip :: "pystr \<Rightarrow> pystr" where
  "strip s = rev (dropWhile isspace (rev (dropWhile isspace s)))"

text \<open>
  A dict with string keys is the list of its items; a lookup finds the first item of
  the key. \<^verbatim>\<open>raw.get(key)\<close> and \<^verbatim>\<open>raw.get(key, default)\<close>:
\<close>

type_synonym pydict = "(pystr \<times> pyval) list"

definition dict_get :: "pydict \<Rightarrow> pystr \<Rightarrow> pyval" where
  "dict_get d k = (case map_of d k of None \<Rightarrow> PNone | Some v \<Rightarrow> v)"

definition dict_get_default :: "pydict \<Rightarrow> pystr \<Rightarrow> pyval \<Rightarrow> pyval" where
  "dict_get_default d k dflt = (case map_of d k of None \<Rightarrow> dflt | Some v \<Rightarrow> v)"


section \<open>The plugin object\<close>

text \<open>
  The attributes that \<^verbatim>\<open>QQBanPlugin.__init__\<close> sets. The configuration is
  read through its schema: a key is absent (\<open>None\<close>) or holds a value of its type.
\<close>

record config =
  enable_group_whitelist :: "bool option"
  group_whitelist_entries :: "pyval list option"
  enable_blacklist_notice :: "bool option"
  enable_auto_approve :: "bool option"
  reject_reason_entry :: "pystr option"
  leave_notice_template_entry :: "pystr option"

record plugin =
  enforce_whitelist :: bool
  group_whitelist :: "pystr set"
  notice_enabled :: bool
  auto_approve_enabled :: bool
  reject_reason :: pystr
  leave_notice_template :: pystr

definition config_get :: "'a option \<Rightarrow> 'a \<Rightarrow> 'a" where
  "config_get entry dflt = (case entry of None \<Rightarrow> dflt | Some v \<Rightarrow> v)"

text \<open>
  Lines 34 to 36: \<^verbatim>\<open>{str(gid).strip() for gid in config.get("group_whitelist", []) if gid}\<close>.
\<close>

definition init_group_whitelist :: "pyval list \<Rightarrow> pystr set" where
  "init_group_whitelist entries = set (map (\<lambda>gid. strip (py_str gid)) (filter truthy entries))"

text \<open>
  \<^verbatim>\<open>__init__\<close>. The two default texts of lines 41 and 45 are the parameters
  \<open>default_reason\<close> and \<open>default_template\<close>.
  \<^verbatim>\<open>config.get(k) or default\<close> takes the default for an absent and for an empty text.
\<close>

definition init :: "pystr \<Rightarrow> pystr \<Rightarrow> config \<Rightarrow> plugin" where
  "init default_reason default_template cfg =
     \<lparr> enforce_whitelist = config_get (enable_group_whitelist cfg) True,
       group_whitelist = init_group_whitelist (config_get (group_whitelist_entries cfg) []),
       notice_enabled = config_get (enable_blacklist_notice cfg) True,
       auto_approve_enabled = config_get (enable_auto_approve cfg) False,
       reject_reason =
         (case reject_reason_entry cfg of
            None \<Rightarrow> default_reason
          | Some r \<Rightarrow> if r \<noteq> [] then r else default_reason),
       leave_notice_template =
         (case leave_notice_template_entry cfg of
            None \<Rightarrow> default_template
          | Some t \<Rightarrow> if t \<noteq> [] then t else default_template) \<rparr>"

text \<open>\<^verbatim>\<open>_group_allowed\<close>.\<close>

definition group_allowed :: "plugin \<Rightarrow> pystr \<Rightarrow> bool" where
  "group_allowed self group_id =
     (if group_id = [] then False
      else if \<not> enforce_whitelist self then True
      else group_id \<in> group_whitelist self)"


section \<open>The JSON text of a blacklist\<close>

text \<open>
  Line 74 writes \<^verbatim>\<open>json.dump(sorted(...), file, ensure_ascii=False, indent=2)\<close>.
  For a list of strings the encoder yields \<^verbatim>\<open>[]\<close> for the empty list and otherwise
  an opening bracket, each string on a line of its own behind two spaces, the lines
  separated by commas, a line feed and the closing bracket. Inside a string the quote
  (34), the backslash (92) and the control characters below 32 are escaped, the others
  by \<^verbatim>\<open>\u00XX\<close> in lower-case hexadecimal; with \<^verbatim>\<open>ensure_ascii=False\<close> every other
  character stands for itself.
\<close>

definition hex_digit :: "nat \<Rightarrow> nat" where
  "hex_digit d = (if d < 10 then 48 + d else 87 + d)"

definition escape_char :: "nat \<Rightarrow> pystr" where
  "escape_char c =
     (if c = 34 then [92, 34]
      else if c = 92 then [92, 92]
      else if c = 10 then [92, 110]
      else if c = 13 then [92, 114]
      else if c = 9 then [92, 116]
      else if c = 8 then [92, 98]
      else if c = 12 then [92, 102]
      else if c < 32 then [92, 117, 48, 48, hex_digit (c div 16), hex_digit (c mod 16)]
      else [c])"

definition encode_string :: "pystr \<Rightarrow> pystr" where
  "encode_string s = 34 # concat (map escape_char s) @ [34]"

fun dump_items :: "pystr list \<Rightarrow> pystr" where
  "dump_items [] = [10, 93]"
| "dump_items (y # ys) = [44, 10, 32, 32] @ encode_string y @ dump_items ys"

fun json_dumps :: "pystr list \<Rightarrow> pystr" where
  "json_dumps [] = [91, 93]"
| "json_dumps (x # xs) = [91, 10, 32, 32] @ encode_string x @ dump_items xs"

text \<open>
  The JSON grammar on arrays of strings, as \<^verbatim>\<open>json.load\<close> reads it: white space
  (32, 9, 10, 13) around the brackets, the strings and the commas; in a string no raw
  control character, and the escapes of the quote, the backslash, the slash, \<^verbatim>\<open>b f n r t\<close>
  and \<^verbatim>\<open>\uXXXX\<close> with four hexadecimal digits. A \<^verbatim>\<open>\uXXXX\<close> that names a
  surrogate is left to the library (it may pair it with the next escape), as is
  every text that is not an array of strings. The scanner reads its input once,
  keeping the string it is in (reversed) and the strings it has read (reversed).
\<close>

definition json_space :: "nat \<Rightarrow> bool" where
  "json_space c = (c = 32 \<or> c = 9 \<or> c = 10 \<or> c = 13)"

definition unescape :: "nat \<Rightarrow> nat option" where
  "unescape c =
     (if c = 34 then Some 34
      else if c = 92 then Some 92
      else if c = 47 then Some 47
      else if c = 98 then Some 8
      else if c = 102 then Some 12
      else if c = 110 then Some 10
      else if c = 114 then Some 13
      else if c = 116 then Some 9
      else None)"

definition hex_value :: "nat \<Rightarrow> nat option" where
  "hex_value c =
     (if 48 \<le> c \<and> c \<le> 57 then Some (c - 48)
      else if 97 \<le> c \<and> c \<le> 102 then Some (c - 87)
      else if 65 \<le> c \<and> c \<le> 70 then Some (c - 55)
      else None)"

datatype scan = Start | Opened | Plain | Escaped | Hex nat nat | After | Comma | Closed

fun scan_array :: "scan \<Rightarrow> pystr \<Rightarrow> pystr list \<Rightarrow> pystr \<Rightarrow> pystr list option" where
  "scan_array st cur items [] = (if st = Closed then Some (rev items) else None)"
| "scan_array Start cur items (c # cs) =
     (if json_space c then scan_array Start cur items cs
      else if c = 91 then scan_array Opened cur items cs
      else None)"
| "scan_array Opened cur items (c # cs) =
     (if json_space c then scan_array Opened cur items cs
      else if c = 93 then scan_array Closed cur items cs
      else if c = 34 then scan_array Plain [] items cs
      else None)"
| "scan_array Plain cur items (c # cs) =
     (if c = 34 then scan_array After [] (rev cur # items) cs
      else if c = 92 then scan_array Escaped cur items cs
      else if c < 32 then None
      else scan_array Plain (c # cur) items cs)"
| "scan_array Escaped cur items (c # cs) =
     (if c = 117 then scan_array (Hex 4 0) cur items cs
      else (case unescape c of
              None \<Rightarrow> None
            | Some d \<Rightarrow> scan_array Plain (d # cur) items cs))"
| "scan_array (Hex k v) cur items (c # cs) =
     (case hex_value c of
        None \<Rightarrow> None
      | Some h \<Rightarrow>
          if k \<le> 1
          then (if surrogate (16 * v + h) then None
                else scan_array Plain ((16 * v + h) # cur) items cs)
          else scan_array (Hex (k - 1) (16 * v + h)) cur items cs)"
| "scan_array After cur items (c # cs) =
     (if json_space c then scan_array After cur items cs
      else if c = 44 then scan_array Comma cur items cs
      else if c = 93 then scan_array Closed cur items cs
      else None)"
| "scan_array Comma cur items (c # cs) =
     (if json_space c then scan_array Comma cur items cs
      else if c = 34 then scan_array Plain [] items cs
      else None)"
| "scan_array Closed cur items (c # cs) =
     (if json_space c then scan_array Closed cur items cs else None)"

definition parse_string_array :: "pystr \<Rightarrow> pystr list option" where
  "parse_string_array t = scan_array Start [] [] t"


section \<open>The blacklist files\<close>

text \<open>
  \<^verbatim>\<open>os.path.join\<close> of two components on a POSIX system: an absolute second
  component replaces the first, otherwise the two are joined by one slash (47).
\<close>

definition path_join :: "pystr \<Rightarrow> pystr \<Rightarrow> pystr" where
  "path_join a b =
     (if b \<noteq> [] \<and> hd b = 47 then b
      else if a = [] \<or> last a = 47 then a @ b
      else a @ [47] @ b)"

definition DATA_DIR :: pystr where
  "DATA_DIR = path_join (path_join (lit ''data'') (lit ''plugins'')) (lit ''astrbot_plugin_qq_ban'')"

definition group_dir :: "pystr \<Rightarrow> pystr" where
  "group_dir group_id = path_join DATA_DIR group_id"

definition blacklist_file :: "pystr \<Rightarrow> pystr" where
  "blacklist_file group_id = path_join (group_dir group_id) (lit ''blacklist.json'')"

text \<open>
  Whether the operating system takes a string as a path. A path with a NUL, and a path
  with a surrogate that the file system encoding cannot escape (it escapes 56448 to
  56575), make every \<^verbatim>\<open>os\<close> function raise \<^verbatim>\<open>ValueError\<close>
  (\<^verbatim>\<open>UnicodeEncodeError\<close> is one); \<^verbatim>\<open>os.path.exists\<close> catches it and answers
  \<^verbatim>\<open>False\<close>.
\<close>

definition path_char_ok :: "nat \<Rightarrow> bool" where
  "path_char_ok c = (c \<noteq> 0 \<and> (surrogate c \<longrightarrow> 56448 \<le> c \<and> c \<le> 56575))"

definition path_ok :: "pystr \<Rightarrow> bool" where
  "path_ok p = list_all path_char_ok p"

text \<open>
  What \<^verbatim>\<open>json.load\<close> returns for a file: a scalar, an array (of scalars) or an
  object (its keys in order, with their values).
\<close>

datatype json = Scalar pyval | Array "pyval list" | Object "(pystr \<times> pyval) list"

datatype error = OSError | ValueError | JSONDecodeError | TypeError

text \<open>
  The Python runtime beside the plugin. \<open>json_other\<close>: what \<^verbatim>\<open>json.load\<close> does
  with a text that the grammar above does not read as an array of strings (an
  exception, or another document). \<open>unicode_digit\<close>: the characters from code point
  128 on for which \<^verbatim>\<open>str.isdigit()\<close> holds, a table of the Unicode database.
\<close>

record runtime =
  json_other :: "pystr \<Rightarrow> error + json"
  unicode_digit :: "nat \<Rightarrow> bool"

definition json_load :: "runtime \<Rightarrow> pystr \<Rightarrow> error + json" where
  "json_load rt t =
     (case parse_string_array t of
        Some xs \<Rightarrow> Inr (Array (map PStr xs))
      | None \<Rightarrow> json_other rt t)"

text \<open>
  The state of one path. \<open>Unreadable\<close>: the path exists but \<^verbatim>\<open>open\<close> or the
  decoding of its bytes fails (a directory, no permission, bytes that are not UTF-8).
  \<open>Malformed\<close>: the file holds the beginning of a JSON text and no more, as an
  interrupted \<^verbatim>\<open>json.dump\<close> leaves it; \<^verbatim>\<open>json.load\<close> rejects it. \<open>Text t\<close>:
  reading the file gives the text \<open>t\<close>; the text that line 74 writes holds no carriage
  return, so that reading gives it back as it was written. The file system is a map
  from the path strings the plugin builds to these states; a path that is not in the
  map does not exist.
\<close>

datatype file_state = Unreadable | Malformed | Text pystr

type_synonym filesystem = "pystr \<rightharpoonup> file_state"

text \<open>
  \<^verbatim>\<open>{str(uid) for uid in data}\<close> (line 64). Iterating an array gives its elements,
  an object its keys, a string its characters; any other scalar is not iterable.
\<close>

fun members_of :: "json \<Rightarrow> error + pystr set" where
  "members_of (Array xs) = Inr (set (map py_str xs))"
| "members_of (Object kvs) = Inr (set (map fst kvs))"
| "members_of (Scalar (PStr s)) = Inr (set (map (\<lambda>c. [c]) s))"
| "members_of (Scalar v) = Inl TypeError"

text \<open>
  The body of the \<^verbatim>\<open>try\<close> of \<^verbatim>\<open>_load_blacklist\<close> (lines 62 to 64):
  \<^verbatim>\<open>open\<close>, \<^verbatim>\<open>json.load\<close>, then the set comprehension.
\<close>

fun load_try :: "runtime \<Rightarrow> file_state \<Rightarrow> error + pystr set" where
  "load_try rt Unreadable = Inl OSError"
| "load_try rt Malformed = Inl JSONDecodeError"
| "load_try rt (Text t) =
     (case json_load rt t of Inl exc \<Rightarrow> Inl exc | Inr data \<Rightarrow> members_of data)"

text \<open>
  \<^verbatim>\<open>_load_blacklist\<close>: the empty set when \<^verbatim>\<open>os.path.exists\<close> is false, and when
  the \<^verbatim>\<open>try\<close> raises (logged by the \<^verbatim>\<open>except Exception\<close> of line 65).
\<close>

definition load_blacklist :: "runtime \<Rightarrow> filesystem \<Rightarrow> pystr \<Rightarrow> pystr set" where
  "load_blacklist rt fs group_id =
     (let path = blacklist_file group_id in
      if \<not> path_ok path then {}
      else (case fs path of
              None \<Rightarrow> {}
            | Some f \<Rightarrow> (case load_try rt f of Inl exc \<Rightarrow> {} | Inr members \<Rightarrow> members)))"

text \<open>
  How the operating system answers a write to a path it accepts, for reasons of its own
  (permissions, space, limits). \<open>MkdirFails\<close>: \<^verbatim>\<open>os.makedirs\<close> raises
  \<^verbatim>\<open>OSError\<close>. \<open>OpenFails\<close>: \<^verbatim>\<open>open(path, "w")\<close> raises, the file is
  untouched. \<open>DumpFails\<close>: the file was opened, hence truncated, and the text did not
  reach it whole. \<open>WriteOk\<close>: the operating system takes everything it is given.
\<close>

datatype write_outcome = MkdirFails | OpenFails | DumpFails | WriteOk

text \<open>
  What lies outside the process: the answer of the operating system to a write, whether
  \<^verbatim>\<open>client.api.call_action\<close> returns (\<open>True\<close>) or raises, and whether the import of
  \<^verbatim>\<open>AiocqhttpMessageEvent\<close> at the top of the module succeeded.
\<close>

record env =
  write_result :: write_outcome
  call_action_ok :: bool
  aiocqhttp_imported :: bool

text \<open>
  \<^verbatim>\<open>_save_blacklist\<close>. Line 70, \<^verbatim>\<open>os.makedirs\<close>, is outside the \<^verbatim>\<open>try\<close>: its
  \<^verbatim>\<open>ValueError\<close> for a directory name that is no path and its \<^verbatim>\<open>OSError\<close> reach
  the caller. Inside the \<^verbatim>\<open>try\<close>, the file is opened with
  \<^verbatim>\<open>encoding="utf-8"\<close> and the text of
  \<^verbatim>\<open>json.dump(sorted({str(uid) for uid in members}), ...)\<close> is written to it; the
  members are strings, on which \<^verbatim>\<open>str\<close> is the identity. When the text cannot be
  encoded the write raises after the file was truncated, and when the operating system
  fails the write raises too; line 76 logs both and the function returns.
\<close>

definition save_blacklist ::
  "env \<Rightarrow> filesystem \<Rightarrow> pystr \<Rightarrow> pystr set \<Rightarrow> error + filesystem" where
  "save_blacklist e fs group_id members =
     (let path = blacklist_file group_id;
          dumped = json_dumps (sorted_list_of_set members)
      in if \<not> path_ok (group_dir group_id) then Inl ValueError
         else (case write_result e of
                 MkdirFails \<Rightarrow> Inl OSError
               | OpenFails \<Rightarrow> Inr fs
               | DumpFails \<Rightarrow> Inr (fs(path \<mapsto> Malformed))
               | WriteOk \<Rightarrow>
                   if utf8_encodable dumped then Inr (fs(path \<mapsto> Text dumped))
                   else Inr (fs(path \<mapsto> Malformed))))"

text \<open>
  \<^verbatim>\<open>_add_to_blacklist\<close>: the returned flag and the file system afterwards, or the
  exception of \<^verbatim>\<open>_save_blacklist\<close>. Line 85 returns \<^verbatim>\<open>True\<close> whether or not the
  write of line 83 reached the file.
\<close>

definition add_to_blacklist ::
  "runtime \<Rightarrow> env \<Rightarrow> filesystem \<Rightarrow> pystr \<Rightarrow> pystr \<Rightarrow> error + (bool \<times> filesystem)" where
  "add_to_blacklist rt e fs group_id user_id =
     (let members = load_blacklist rt fs group_id in
      if user_id \<in> members then Inr (False, fs)
      else (case save_blacklist e fs group_id (insert user_id members) of
              Inl exc \<Rightarrow> Inl exc
            | Inr fs' \<Rightarrow> Inr (True, fs')))"

definition in_blacklist :: "runtime \<Rightarrow> filesystem \<Rightarrow> pystr \<Rightarrow> pystr \<Rightarrow> bool" where
  "in_blacklist rt fs group_id user_id = (user_id \<in> load_blacklist rt fs group_id)"


section \<open>Events and what handling an event does\<close>

text \<open>
  The part of an \<^verbatim>\<open>AstrMessageEvent\<close> that the plugin reads. \<open>raw_message\<close> is
  \<^verbatim>\<open>event.message_obj.raw_message\<close> when it is a dict, and \<open>None\<close> when an attribute
  is missing or the value is no dict. \<open>msg_group_id\<close> is the attribute
  \<^verbatim>\<open>event.message_obj.group_id\<close>, \<open>None\<close> when the object has none.
\<close>

record event =
  raw_message :: "pydict option"
  msg_group_id :: "pyval option"
  platform_name :: pystr
  is_aiocqhttp_event :: bool

text \<open>
  The keyword arguments of \<^verbatim>\<open>call_action("set_group_add_request", ...)\<close>;
  \<open>reason\<close> is present on a rejection only.
\<close>

record payload =
  flag :: pyval
  sub_type :: pyval
  approve :: bool
  reason :: "pystr option"

text \<open>
  One invocation of \<^verbatim>\<open>_process_group_request\<close>: its \<^verbatim>\<open>approve\<close> argument, the
  remote call it made if it reached line 184, and the boolean it returned.
\<close>

record adapter_call =
  approve_arg :: bool
  remote_call :: "payload option"
  success :: bool

text \<open>
  The messages an event handler yields. The texts of lines 147 and 155 are fixed
  sentences around the member's display form. A leave notice is the template applied
  to \<^verbatim>\<open>member\<close>, \<^verbatim>\<open>user_id\<close> and \<^verbatim>\<open>group_id\<close>; \<^verbatim>\<open>str.format\<close> itself is not
  modelled.
\<close>

datatype notice =
    LeaveNotice pystr pystr pystr pystr
  | RejectNotice pystr
  | ApproveNotice pystr

text \<open>
  Everything that handling one event does: the file system afterwards, the messages
  yielded, the invocations of the adapter, and the exception that left the handler.
\<close>

record outcome =
  store :: filesystem
  messages :: "notice list"
  adapter :: "adapter_call list"
  raised :: "error option"

definition nothing :: "filesystem \<Rightarrow> outcome" where
  "nothing fs = \<lparr> store = fs, messages = [], adapter = [], raised = None \<rparr>"

text \<open>
  \<^verbatim>\<open>str.isdigit()\<close>: a non-empty string of digit characters. Below code point 128
  these are 48 to 57.
\<close>

definition isdigit_char :: "runtime \<Rightarrow> nat \<Rightarrow> bool" where
  "isdigit_char rt c = (if c < 128 then 48 \<le> c \<and> c \<le> 57 else unicode_digit rt c)"

definition isdigit :: "runtime \<Rightarrow> pystr \<Rightarrow> bool" where
  "isdigit rt s = (s \<noteq> [] \<and> list_all (isdigit_char rt) s)"

definition format_member :: "runtime \<Rightarrow> pystr \<Rightarrow> pystr" where
  "format_member rt user_id =
     (if isdigit rt user_id then lit ''[CQ:at,qq='' @ user_id @ lit '']'' else user_id)"

definition render_leave_notice :: "plugin \<Rightarrow> runtime \<Rightarrow> pystr \<Rightarrow> pystr \<Rightarrow> notice" where
  "render_leave_notice self rt group_id user_id =
     LeaveNotice (leave_notice_template self) (format_member rt user_id) user_id group_id"

text \<open>
  Lines 118 and 134, the same expression in both handlers:
  \<^verbatim>\<open>str(raw.get("group_id") or getattr(event.message_obj, "group_id", ""))\<close>,
  and lines 119 and 135: \<^verbatim>\<open>str(raw.get("user_id") or "")\<close>.
\<close>

definition event_group_id :: "event \<Rightarrow> pydict \<Rightarrow> pystr" where
  "event_group_id ev raw =
     py_str (py_or (dict_get raw (lit ''group_id''))
                   (case msg_group_id ev of None \<Rightarrow> PStr [] | Some v \<Rightarrow> v))"

definition event_user_id :: "pydict \<Rightarrow> pystr" where
  "event_user_id raw = py_str (py_or (dict_get raw (lit ''user_id'')) (PStr []))"

text \<open>\<^verbatim>\<open>_process_group_request\<close>.\<close>

definition process_group_request ::
  "plugin \<Rightarrow> env \<Rightarrow> event \<Rightarrow> pyval \<Rightarrow> pyval \<Rightarrow> bool \<Rightarrow> adapter_call" where
  "process_group_request self e ev flg sub appr =
     (if platform_name ev \<noteq> lit ''aiocqhttp'' \<or> \<not> aiocqhttp_imported e
      then \<lparr> approve_arg = appr, remote_call = None, success = False \<rparr>
      else if \<not> is_aiocqhttp_event ev
      then \<lparr> approve_arg = appr, remote_call = None, success = False \<rparr>
      else
        let pl = \<lparr> flag = flg, sub_type = sub, approve = appr,
                   reason = (if \<not> appr then Some (reject_reason self) else None) \<rparr>
        in \<lparr> approve_arg = appr, remote_call = Some pl, success = call_action_ok e \<rparr>)"

text \<open>\<^verbatim>\<open>_handle_group_decrease\<close>.\<close>

definition handle_group_decrease ::
  "plugin \<Rightarrow> runtime \<Rightarrow> env \<Rightarrow> filesystem \<Rightarrow> event \<Rightarrow> pydict \<Rightarrow> outcome" where
  "handle_group_decrease self rt e fs ev raw =
     (let group_id = event_group_id ev raw;
          user_id = event_user_id raw
      in if group_id = [] \<or> user_id = [] then nothing fs
         else if \<not> group_allowed self group_id then nothing fs
         else (case add_to_blacklist rt e fs group_id user_id of
                 Inl exc \<Rightarrow> (nothing fs)\<lparr> raised := Some exc \<rparr>
               | Inr (added, fs') \<Rightarrow>
                   if added \<and> notice_enabled self
                   then (nothing fs')\<lparr> messages := [render_leave_notice self rt group_id user_id] \<rparr>
                   else nothing fs'))"

text \<open>\<^verbatim>\<open>_handle_group_request\<close>.\<close>

definition handle_group_request ::
  "plugin \<Rightarrow> runtime \<Rightarrow> env \<Rightarrow> filesystem \<Rightarrow> event \<Rightarrow> pydict \<Rightarrow> outcome" where
  "handle_group_request self rt e fs ev raw =
     (let group_id = event_group_id ev raw;
          user_id = event_user_id raw;
          flg = dict_get raw (lit ''flag'');
          sub = dict_get_default raw (lit ''sub_type'') (PStr (lit ''add''))
      in if \<not> (group_id \<noteq> [] \<and> user_id \<noteq> [] \<and> truthy flg) then nothing fs
         else if \<not> group_allowed self group_id then nothing fs
         else if in_blacklist rt fs group_id user_id
         then \<lparr> store = fs,
                messages = (if notice_enabled self
                            then [RejectNotice (format_member rt user_id)] else []),
                adapter = [process_group_request self e ev flg sub False],
                raised = None \<rparr>
         else if auto_approve_enabled self
         then (let call = process_group_request self e ev flg sub True
               in \<lparr> store = fs,
                    messages = (if success call \<and> notice_enabled self
                                then [ApproveNotice (format_member rt user_id)] else []),
                    adapter = [call],
                    raised = None \<rparr>)
         else nothing fs)"

text \<open>\<^verbatim>\<open>_extract_raw_payload\<close> and \<^verbatim>\<open>handle_group_events\<close>; an empty dict is falsy.\<close>

definition extract_raw_payload :: "event \<Rightarrow> pydict option" where
  "extract_raw_payload ev = raw_message ev"

definition handle_group_events ::
  "plugin \<Rightarrow> runtime \<Rightarrow> env \<Rightarrow> filesystem \<Rightarrow> event \<Rightarrow> outcome" where
  "handle_group_events self rt e fs ev =
     (case extract_raw_payload ev of
        None \<Rightarrow> nothing fs
      | Some raw \<Rightarrow>
          if raw = [] then nothing fs
          else
            let post_type = dict_get raw (lit ''post_type'') in
            if post_type = PStr (lit ''notice'')
               \<and> dict_get raw (lit ''notice_type'') = PStr (lit ''group_decrease'')
            then handle_group_decrease self rt e fs ev raw
            else if post_type = PStr (lit ''request'')
                    \<and> dict_get raw (lit ''request_type'') = PStr (lit ''group'')
            then handle_group_request self rt e fs ev raw
            else nothing fs)"


section \<open>Example inputs\<close>

text \<open>
  A configuration with allow-list enforcement left at its default (on), the groups
  \<^verbatim>\<open>100\<close> and \<^verbatim>\<open>" 200 "\<close> on the allow-list, and automatic approval switched on;
  a runtime that reads the text \<^verbatim>\<open>5\<close> as the number and rejects what else is no
  array of strings, with the ASCII digits only; a platform on which every call
  succeeds; a file system where user \<^verbatim>\<open>42\<close> is on the blacklist of group
  \<^verbatim>\<open>100\<close>; a join request and a leave notice that carry neither a group id nor a
  user id yet, inside a message of group \<^verbatim>\<open>100\<close>.
\<close>

definition example_config :: config where
  "example_config =
     \<lparr> enable_group_whitelist = None,
       group_whitelist_entries = Some [PInt 100, PStr (lit '' 200 '')],
       enable_blacklist_notice = None,
       enable_auto_approve = Some True,
       reject_reason_entry = Some (lit ''blacklisted''),
       leave_notice_template_entry = None \<rparr>"

definition example_plugin :: plugin where
  "example_plugin = init (lit ''refused'') (lit ''{member} left'') example_config"

definition strict_plugin :: plugin where
  "strict_plugin =
     init (lit ''refused'') (lit ''{member} left'')
       (example_config\<lparr> group_whitelist_entries := Some [] \<rparr>)"

definition example_runtime :: runtime where
  "example_runtime =
     \<lparr> json_other = (\<lambda>t. if t = lit ''5'' then Inr (Scalar (PInt 5)) else Inl JSONDecodeError),
       unicode_digit = (\<lambda>c. False) \<rparr>"

definition example_env :: env where
  "example_env = \<lparr> write_result = WriteOk, call_action_ok = True, aiocqhttp_imported = True \<rparr>"

definition example_store :: filesystem where
  "example_store = [blacklist_file (lit ''100'') \<mapsto> Text (json_dumps [lit ''42''])]"

definition example_request :: pydict where
  "example_request =
     [(lit ''post_type'', PStr (lit ''request'')), (lit ''request_type'', PStr (lit ''group'')),
      (lit ''sub_type'', PStr (lit ''add'')), (lit ''flag'', PStr (lit ''f1''))]"

definition example_leave :: pydict where
  "example_leave =
     [(lit ''post_type'', PStr (lit ''notice'')),
      (lit ''notice_type'', PStr (lit ''group_decrease''))]"

definition example_event :: "pydict \<Rightarrow> event" where
  "example_event raw =
     \<lparr> raw_message = Some raw,
       msg_group_id = Some (PStr (lit ''100'')),
       platform_name = lit ''aiocqhttp'',
       is_aiocqhttp_event = True \<rparr>"


section \<open>Reading back what was written\<close>

lemma lit_eq_iff [simp]: "lit a = lit b \<longleftrightarrow> a = b"
  by (simp add: lit_def inj_map_eq_map inj_on_def)

lemma lit_eq_Nil [simp]: "lit a = [] \<longleftrightarrow> a = []"
  by (simp add: lit_def)

lemma hex_value_hex_digit: "d < 16 \<Longrightarrow> hex_value (hex_digit d) = Some d"
  by (auto simp: hex_value_def hex_digit_def)

lemma scan_control_escape:
  assumes "c < 32"
  shows "scan_array Plain cur items
           (92 # 117 # 48 # 48 # hex_digit (c div 16) # hex_digit (c mod 16) # rest)
         = scan_array Plain (c # cur) items rest"
proof -
  have h0: "hex_value 48 = Some 0"
    by (simp add: hex_value_def)
  have h1: "hex_value (hex_digit (c div 16)) = Some (c div 16)"
    using assms by (intro hex_value_hex_digit) simp
  have h2: "hex_value (hex_digit (c mod 16)) = Some (c mod 16)"
    by (intro hex_value_hex_digit) simp
  have ns: "\<not> surrogate c"
    using assms by (simp add: surrogate_def)
  have "scan_array Plain cur items
           (92 # 117 # 48 # 48 # hex_digit (c div 16) # hex_digit (c mod 16) # rest)
        = scan_array (Hex 4 0) cur items
           (48 # 48 # hex_digit (c div 16) # hex_digit (c mod 16) # rest)"
    by simp
  also have "\<dots> = scan_array (Hex 2 0) cur items
           (hex_digit (c div 16) # hex_digit (c mod 16) # rest)"
    by (simp add: h0)
  also have "\<dots> = scan_array (Hex 1 (c div 16)) cur items (hex_digit (c mod 16) # rest)"
    by (simp add: h1)
  also have "\<dots> = scan_array Plain (c # cur) items rest"
    using ns by (simp add: h2)
  finally show ?thesis .
qed

lemma scan_escape_char:
  "scan_array Plain cur items (escape_char c @ rest) = scan_array Plain (c # cur) items rest"
proof -
  consider (short) "c = 34 \<or> c = 92 \<or> c = 10 \<or> c = 13 \<or> c = 9 \<or> c = 8 \<or> c = 12"
    | (control) "c < 32" "c \<noteq> 10" "c \<noteq> 13" "c \<noteq> 9" "c \<noteq> 8" "c \<noteq> 12"
    | (plain) "32 \<le> c" "c \<noteq> 34" "c \<noteq> 92"
    by linarith
  then show ?thesis
  proof cases
    case short
    then show ?thesis
      by (elim disjE) (simp_all add: escape_char_def unescape_def)
  next
    case control
    then have "escape_char c = [92, 117, 48, 48, hex_digit (c div 16), hex_digit (c mod 16)]"
      by (simp add: escape_char_def)
    then show ?thesis
      using scan_control_escape [OF control(1)] by simp
  next
    case plain
    then have "escape_char c = [c]"
      by (simp add: escape_char_def)
    with plain show ?thesis by simp
  qed
qed

lemma scan_escaped_string:
  "scan_array Plain cur items (concat (map escape_char s) @ rest)
     = scan_array Plain (rev s @ cur) items rest"
  by (induction s arbitrary: cur) (simp_all add: scan_escape_char)

lemma scan_string_body:
  "scan_array Plain [] items (concat (map escape_char s) @ 34 # rest)
     = scan_array After [] (s # items) rest"
  using scan_escaped_string [of "[]" items s "34 # rest"] by simp

lemma scan_dump_items:
  "scan_array After [] items (dump_items ys) = Some (rev items @ ys)"
proof (induction ys arbitrary: items)
  case Nil
  show ?case by (simp add: json_space_def)
next
  case (Cons y ys)
  have "scan_array After [] items (dump_items (y # ys))
          = scan_array Plain [] items (concat (map escape_char y) @ 34 # dump_items ys)"
    by (simp add: encode_string_def json_space_def)
  also have "\<dots> = scan_array After [] (y # items) (dump_items ys)"
    by (rule scan_string_body)
  also have "\<dots> = Some (rev items @ y # ys)"
    by (simp add: Cons.IH)
  finally show ?case .
qed

lemma parse_json_dumps: "parse_string_array (json_dumps xs) = Some xs"
proof (cases xs)
  case Nil
  then show ?thesis by (simp add: parse_string_array_def json_space_def)
next
  case (Cons x ys)
  have "scan_array Start [] [] (json_dumps (x # ys))
          = scan_array Plain [] [] (concat (map escape_char x) @ 34 # dump_items ys)"
    by (simp add: encode_string_def json_space_def)
  also have "\<dots> = scan_array After [] [x] (dump_items ys)"
    by (rule scan_string_body)
  also have "\<dots> = Some (x # ys)"
    by (simp add: scan_dump_items)
  finally show ?thesis
    using Cons by (simp add: parse_string_array_def)
qed

lemma utf8_encodable_Nil [simp]: "utf8_encodable []"
  by (simp add: utf8_encodable_def)

lemma utf8_encodable_Cons [simp]:
  "utf8_encodable (c # s) \<longleftrightarrow> \<not> surrogate c \<and> utf8_encodable s"
  by (simp add: utf8_encodable_def)

lemma utf8_encodable_append [simp]:
  "utf8_encodable (a @ b) \<longleftrightarrow> utf8_encodable a \<and> utf8_encodable b"
  by (simp add: utf8_encodable_def)

lemma hex_digit_no_surrogate: "d < 16 \<Longrightarrow> \<not> surrogate (hex_digit d)"
  by (auto simp: surrogate_def hex_digit_def)

lemma utf8_encodable_escape_char: "utf8_encodable (escape_char c) \<longleftrightarrow> \<not> surrogate c"
proof (cases "c < 32")
  case True
  then have "\<not> surrogate c" "\<not> surrogate (hex_digit (c div 16))" "\<not> surrogate (hex_digit (c mod 16))"
    by (simp_all add: hex_digit_no_surrogate) (simp add: surrogate_def)
  then show ?thesis
    by (simp add: escape_char_def surrogate_def)
next
  case False
  then show ?thesis
    by (simp add: escape_char_def surrogate_def)
qed

lemma utf8_encodable_escaped:
  "utf8_encodable (concat (map escape_char s)) \<longleftrightarrow> utf8_encodable s"
  by (induction s) (simp_all add: utf8_encodable_escape_char)

lemma utf8_encodable_encode_string: "utf8_encodable (encode_string s) \<longleftrightarrow> utf8_encodable s"
  by (simp add: encode_string_def utf8_encodable_escaped surrogate_def)

lemma utf8_encodable_dump_items:
  "utf8_encodable (dump_items ys) \<longleftrightarrow> list_all utf8_encodable ys"
  by (induction ys) (simp_all add: utf8_encodable_encode_string surrogate_def)

lemma utf8_encodable_json_dumps:
  "utf8_encodable (json_dumps xs) \<longleftrightarrow> list_all utf8_encodable xs"
  by (cases xs) (simp_all add: utf8_encodable_encode_string utf8_encodable_dump_items surrogate_def)

section \<open>The blacklist store\<close>

lemma path_char_ok_slash: "path_char_ok 47"
  by (simp add: path_char_ok_def surrogate_def)

lemma path_ok_append [simp]: "path_ok (a @ b) \<longleftrightarrow> path_ok a \<and> path_ok b"
  by (simp add: path_ok_def)

lemma path_ok_path_join: "path_ok a \<Longrightarrow> path_ok (path_join a b) \<longleftrightarrow> path_ok b"
  by (simp add: path_join_def) (simp add: path_ok_def path_char_ok_slash)

lemma path_ok_DATA_DIR: "path_ok DATA_DIR"
  by (simp add: DATA_DIR_def path_join_def lit_def path_ok_def path_char_ok_def surrogate_def)

lemma path_ok_group_dir: "path_ok (group_dir g) \<longleftrightarrow> path_ok g"
  by (simp add: group_dir_def path_ok_path_join path_ok_DATA_DIR)

lemma path_ok_blacklist_file: "path_ok (blacklist_file g) \<longleftrightarrow> path_ok g"
proof -
  have name: "path_ok (lit ''blacklist.json'')"
    by (simp add: lit_def path_ok_def path_char_ok_def surrogate_def)
  have "hd (lit ''blacklist.json'') \<noteq> 47"
    by (simp add: lit_def)
  then have "path_ok (blacklist_file g) \<longleftrightarrow> path_ok (group_dir g) \<and> path_ok (lit ''blacklist.json'')"
    by (simp add: blacklist_file_def path_join_def) (simp add: path_ok_def path_char_ok_slash)
  with name show ?thesis
    by (simp add: path_ok_group_dir)
qed

lemma finite_members_of: "members_of data = Inr s \<Longrightarrow> finite s"
  by (induction data rule: members_of.induct) auto

lemma finite_load_try: "load_try rt f = Inr s \<Longrightarrow> finite s"
  by (cases f) (auto simp: finite_members_of split: sum.splits)

lemma finite_load_blacklist: "finite (load_blacklist rt fs g)"
  by (auto simp: load_blacklist_def Let_def finite_load_try split: sum.splits option.splits)

lemma json_load_json_dumps: "json_load rt (json_dumps xs) = Inr (Array (map PStr xs))"
  by (simp add: json_load_def parse_json_dumps)

lemma load_after_write:
  assumes "finite members" and "path_ok g"
  shows "load_blacklist rt (fs(blacklist_file g \<mapsto> Text (json_dumps (sorted_list_of_set members)))) g
           = members"
  using assms
  by (simp add: load_blacklist_def path_ok_blacklist_file json_load_json_dumps comp_def)

lemma save_blacklist_ok:
  assumes "write_result e = WriteOk" and "path_ok g"
    and "finite members" and "\<forall>m \<in> members. utf8_encodable m"
  shows "save_blacklist e fs g members
           = Inr (fs(blacklist_file g \<mapsto> Text (json_dumps (sorted_list_of_set members))))"
proof -
  have "list_all utf8_encodable (sorted_list_of_set members)"
    using assms(3,4) by (simp add: list_all_iff)
  then have "utf8_encodable (json_dumps (sorted_list_of_set members))"
    by (simp add: utf8_encodable_json_dumps)
  then show ?thesis
    using assms(1,2) by (simp add: save_blacklist_def path_ok_group_dir)
qed

lemma load_blacklist_empty: "load_blacklist rt Map.empty g = {}"
  by (simp add: load_blacklist_def)

lemma save_blacklist_unencodable:
  assumes "write_result e = WriteOk" and "path_ok g"
    and "finite members" and "\<exists>m \<in> members. \<not> utf8_encodable m"
  shows "save_blacklist e fs g members = Inr (fs(blacklist_file g \<mapsto> Malformed))"
proof -
  have "\<not> list_all utf8_encodable (sorted_list_of_set members)"
    using assms(3,4) by (simp add: list_all_iff)
  then have "\<not> utf8_encodable (json_dumps (sorted_list_of_set members))"
    by (simp add: utf8_encodable_json_dumps)
  then show ?thesis
    using assms(1,2) by (simp add: save_blacklist_def path_ok_group_dir)
qed

lemma save_blacklist_open_fails:
  "write_result e = OpenFails \<Longrightarrow> path_ok g \<Longrightarrow> save_blacklist e fs g members = Inr fs"
  by (simp add: save_blacklist_def path_ok_group_dir)

lemma save_blacklist_no_path: "\<not> path_ok g \<Longrightarrow> save_blacklist e fs g members = Inl ValueError"
  by (simp add: save_blacklist_def path_ok_group_dir)

lemma load_blacklist_malformed: "load_blacklist rt (fs(blacklist_file g \<mapsto> Malformed)) g = {}"
  by (simp add: load_blacklist_def Let_def)

lemma path_ok_100: "path_ok (lit ''100'')"
  by (simp add: lit_def path_ok_def path_char_ok_def surrogate_def)

lemma load_example_store: "load_blacklist rt example_store (lit ''100'') = {lit ''42''}"
  by (simp add: example_store_def load_blacklist_def Let_def path_ok_blacklist_file path_ok_100
        json_load_json_dumps del: json_dumps.simps)

lemma str_int_examples:
  "str_int 100 = lit ''100''" "str_int 42 = lit ''42''" "str_int 43 = lit ''43''"
  "str_int 7 = lit ''7''"
  by (simp_all add: str_int_def str_nat.simps lit_def)

text \<open>
  C1, as the claim states it, fails. A user id with the lone surrogate 55296 cannot be
  written as UTF-8: the first call truncates the file and returns true, the user is
  still absent afterwards, and the second call returns true again. The same happens
  to an ordinary user id when the operating system refuses to open the file.
\<close>

theorem add_twice_counterexample:
  "(case add_to_blacklist example_runtime example_env Map.empty (lit ''100'') [55296] of
      Inl exc \<Rightarrow> False
    | Inr (first, fs1) \<Rightarrow>
        first \<and> load_blacklist example_runtime fs1 (lit ''100'') = {}
        \<and> (case add_to_blacklist example_runtime example_env fs1 (lit ''100'') [55296] of
              Inl exc \<Rightarrow> False
            | Inr (second, fs2) \<Rightarrow> second))
   \<and> (case add_to_blacklist example_runtime (example_env\<lparr> write_result := OpenFails \<rparr>)
             Map.empty (lit ''100'') (lit ''42'') of
        Inl exc \<Rightarrow> False
      | Inr (first, fs1) \<Rightarrow>
          first
          \<and> (case add_to_blacklist example_runtime (example_env\<lparr> write_result := OpenFails \<rparr>)
                     fs1 (lit ''100'') (lit ''42'') of
                Inl exc \<Rightarrow> False
              | Inr (second, fs2) \<Rightarrow> second))"
proof -
  let ?g = "lit ''100''"
  let ?bad = "[blacklist_file ?g \<mapsto> Malformed]"
  let ?closed = "example_env\<lparr> write_result := OpenFails \<rparr>"
  have w: "write_result example_env = WriteOk" "write_result ?closed = OpenFails"
    by (simp_all add: example_env_def)
  have s: "\<exists>m \<in> {[55296]}. \<not> utf8_encodable m"
    by (simp add: surrogate_def)
  have save1: "save_blacklist example_env fs ?g {[55296]} = Inr (fs(blacklist_file ?g \<mapsto> Malformed))"
    for fs
    using w(1) path_ok_100 _ s by (rule save_blacklist_unencodable) simp
  have save2: "save_blacklist ?closed fs ?g members = Inr fs" for fs members
    using w(2) path_ok_100 by (rule save_blacklist_open_fails)
  have a1: "add_to_blacklist example_runtime example_env Map.empty ?g [55296] = Inr (True, ?bad)"
    by (simp add: add_to_blacklist_def load_blacklist_empty save1)
  have a2: "add_to_blacklist example_runtime example_env ?bad ?g [55296] = Inr (True, ?bad)"
    by (simp add: add_to_blacklist_def load_blacklist_malformed save1)
  have b: "add_to_blacklist example_runtime ?closed Map.empty ?g (lit ''42'') = Inr (True, Map.empty)"
    by (simp add: add_to_blacklist_def load_blacklist_empty save2)
  show ?thesis
    by (simp add: a1 a2 b load_blacklist_malformed)
qed

text \<open>
  C1, amended. When the user is already on the blacklist, or when the group id is a
  path the operating system takes, the user id and the members already persisted can be
  encoded as UTF-8 and the operating system completes the write: the first call of
  \<^verbatim>\<open>_add_to_blacklist(g, u)\<close> returns true exactly when \<open>u\<close> was absent, and
  afterwards the persisted set of \<open>g\<close> is the old one with \<open>u\<close> added; a second call
  returns false and leaves the file system, hence the persisted set, as the first call
  left it, whatever the operating system would answer to a write.
\<close>

theorem add_to_blacklist_idempotent:
  assumes "u \<in> load_blacklist rt fs g
           \<or> (write_result e = WriteOk \<and> path_ok g \<and> utf8_encodable u
               \<and> (\<forall>m \<in> load_blacklist rt fs g. utf8_encodable m))"
  shows "\<exists>fs1. add_to_blacklist rt e fs g u = Inr (u \<notin> load_blacklist rt fs g, fs1)
         \<and> load_blacklist rt fs1 g = insert u (load_blacklist rt fs g)
         \<and> (\<forall>e2. add_to_blacklist rt e2 fs1 g u = Inr (False, fs1))"
proof (cases "u \<in> load_blacklist rt fs g")
  case True
  then have "add_to_blacklist rt e' fs g u = Inr (False, fs)" for e'
    by (simp add: add_to_blacklist_def)
  with True show ?thesis by (auto simp: insert_absorb)
next
  case False
  let ?S = "insert u (load_blacklist rt fs g)"
  let ?fs1 = "fs(blacklist_file g \<mapsto> Text (json_dumps (sorted_list_of_set ?S)))"
  from False assms have ok: "write_result e = WriteOk" "path_ok g"
    and enc: "\<forall>m \<in> ?S. utf8_encodable m"
    by auto
  have fin: "finite ?S" by (simp add: finite_load_blacklist)
  have "save_blacklist e fs g ?S = Inr ?fs1"
    using ok fin enc by (rule save_blacklist_ok)
  then have first: "add_to_blacklist rt e fs g u = Inr (True, ?fs1)"
    using False by (simp add: add_to_blacklist_def)
  have loaded: "load_blacklist rt ?fs1 g = ?S"
    using fin ok(2) by (rule load_after_write)
  then have second: "add_to_blacklist rt e2 ?fs1 g u = Inr (False, ?fs1)" for e2
    by (simp add: add_to_blacklist_def)
  show ?thesis
  proof (intro exI conjI allI)
    show "add_to_blacklist rt e fs g u = Inr (u \<notin> load_blacklist rt fs g, ?fs1)"
      using False first by simp
    show "load_blacklist rt ?fs1 g = ?S" by (rule loaded)
    show "add_to_blacklist rt e2 ?fs1 g u = Inr (False, ?fs1)" for e2 by (rule second)
  qed
qed

theorem add_to_blacklist_idempotent_witness:
  "\<exists>fs1. add_to_blacklist example_runtime example_env Map.empty (lit ''100'') (lit ''42'')
           = Inr (True, fs1)
         \<and> load_blacklist example_runtime fs1 (lit ''100'') = {lit ''42''}
         \<and> add_to_blacklist example_runtime (example_env\<lparr> write_result := OpenFails \<rparr>)
             fs1 (lit ''100'') (lit ''42'') = Inr (False, fs1)"
proof -
  have h: "write_result example_env = WriteOk \<and> path_ok (lit ''100'') \<and> utf8_encodable (lit ''42'')
           \<and> (\<forall>m \<in> load_blacklist example_runtime Map.empty (lit ''100''). utf8_encodable m)"
    unfolding load_blacklist_empty
    by (simp add: example_env_def path_ok_100) (simp add: lit_def surrogate_def)
  obtain fs1 where
    "add_to_blacklist example_runtime example_env Map.empty (lit ''100'') (lit ''42'')
       = Inr (lit ''42'' \<notin> load_blacklist example_runtime Map.empty (lit ''100''), fs1)"
    "load_blacklist example_runtime fs1 (lit ''100'')
       = insert (lit ''42'') (load_blacklist example_runtime Map.empty (lit ''100''))"
    "\<forall>e2. add_to_blacklist example_runtime e2 fs1 (lit ''100'') (lit ''42'') = Inr (False, fs1)"
    using add_to_blacklist_idempotent
            [of "lit ''42''" example_runtime Map.empty "lit ''100''" example_env] h
    by blast
  then show ?thesis
    unfolding load_blacklist_empty by auto
qed

text \<open>
  C4, as the claim states it, fails. The set that holds the one string with the lone
  surrogate 55296 is saved, the write cannot encode it, and the load gives the empty
  set; for the group id with a NUL the save raises \<^verbatim>\<open>ValueError\<close>.
\<close>

theorem save_then_load_counterexample:
  "(case save_blacklist example_env Map.empty (lit ''100'') {[55296]} of
      Inl exc \<Rightarrow> False
    | Inr fs' \<Rightarrow> load_blacklist example_runtime fs' (lit ''100'') = {})
   \<and> (case save_blacklist example_env Map.empty [49, 0] {lit ''42''} of
        Inl exc \<Rightarrow> exc = ValueError
      | Inr fs' \<Rightarrow> False)"
proof -
  have w: "write_result example_env = WriteOk"
    by (simp add: example_env_def)
  have s: "\<exists>m \<in> {[55296]}. \<not> utf8_encodable m"
    by (simp add: surrogate_def)
  have a: "save_blacklist example_env Map.empty (lit ''100'') {[55296]}
             = Inr [blacklist_file (lit ''100'') \<mapsto> Malformed]"
    using w path_ok_100 _ s by (rule save_blacklist_unencodable) simp
  have "\<not> path_ok [49, 0]"
    by (simp add: path_ok_def path_char_ok_def)
  then have b: "save_blacklist example_env Map.empty [49, 0] {lit ''42''} = Inl ValueError"
    by (rule save_blacklist_no_path)
  show ?thesis
    by (simp add: a b load_blacklist_malformed)
qed

text \<open>
  C4, amended. For every group id that is a path the operating system takes and every
  finite set of user-id strings that UTF-8 can encode (the empty set, a singleton or
  more), a save that the operating system completes, followed by a load, gives the
  saved set back: the text that line 74 writes is read by the JSON grammar as the
  sorted list of the members.
\<close>

theorem save_then_load:
  assumes "finite members" and "path_ok g" and "\<forall>m \<in> members. utf8_encodable m"
    and "write_result e = WriteOk"
  shows "\<exists>fs'. save_blacklist e fs g members = Inr fs' \<and> load_blacklist rt fs' g = members"
proof -
  have "save_blacklist e fs g members
          = Inr (fs(blacklist_file g \<mapsto> Text (json_dumps (sorted_list_of_set members))))"
    using assms(4,2,1,3) by (rule save_blacklist_ok)
  moreover have "load_blacklist rt
          (fs(blacklist_file g \<mapsto> Text (json_dumps (sorted_list_of_set members)))) g = members"
    using assms(1,2) by (rule load_after_write)
  ultimately show ?thesis by blast
qed

theorem save_then_load_witness:
  "\<exists>fs'. save_blacklist example_env Map.empty (lit ''100'') {lit ''7'', lit ''42'', [34, 10, 233]}
           = Inr fs'
         \<and> load_blacklist example_runtime fs' (lit ''100'') = {lit ''7'', lit ''42'', [34, 10, 233]}"
proof -
  have h1: "finite {lit ''7'', lit ''42'', [34, 10, 233]}" by simp
  have h2: "path_ok (lit ''100'')" by (rule path_ok_100)
  have h3: "\<forall>m \<in> {lit ''7'', lit ''42'', [34, 10, 233]}. utf8_encodable m"
    by (simp add: lit_def surrogate_def)
  have h4: "write_result example_env = WriteOk" by (simp add: example_env_def)
  show ?thesis
    using save_then_load [OF h1 h2 h3 h4] by blast
qed

text \<open>
  C8. For every group id, \<^verbatim>\<open>_load_blacklist\<close> returns the empty set when the
  group's file does not exist, when its text cannot be parsed, and whenever anything in
  the \<^verbatim>\<open>try\<close> raises: the exception is turned into the empty set and does not
  reach the caller.
\<close>

theorem load_blacklist_fails_open:
  "(fs (blacklist_file g) = None \<longrightarrow> load_blacklist rt fs g = {})
   \<and> (fs (blacklist_file g) = Some Malformed \<longrightarrow> load_blacklist rt fs g = {})
   \<and> (\<forall>t exc. fs (blacklist_file g) = Some (Text t) \<and> json_load rt t = Inl exc
                \<longrightarrow> load_blacklist rt fs g = {})
   \<and> (\<forall>f exc. fs (blacklist_file g) = Some f \<and> load_try rt f = Inl exc
                \<longrightarrow> load_blacklist rt fs g = {})"
  by (auto simp: load_blacklist_def Let_def)

theorem load_blacklist_fails_open_witness:
  "load_blacklist example_runtime Map.empty (lit ''100'') = {}
   \<and> load_blacklist example_runtime [blacklist_file (lit ''100'') \<mapsto> Malformed] (lit ''100'') = {}
   \<and> load_blacklist example_runtime [blacklist_file (lit ''100'') \<mapsto> Text (lit ''[oops'')]
        (lit ''100'') = {}
   \<and> load_blacklist example_runtime [blacklist_file (lit ''100'') \<mapsto> Text (lit ''5'')]
        (lit ''100'') = {}"
proof -
  let ?p = "blacklist_file (lit ''100'')"
  have j: "json_load example_runtime (lit ''[oops'') = Inl JSONDecodeError"
    by (simp add: json_load_def parse_string_array_def example_runtime_def lit_def json_space_def)
  have k: "load_try example_runtime (Text (lit ''5'')) = Inl TypeError"
    by (simp add: json_load_def parse_string_array_def example_runtime_def json_space_def)
       (simp add: lit_def json_space_def)
  have a: "load_blacklist example_runtime Map.empty (lit ''100'') = {}"
    using load_blacklist_fails_open [of Map.empty "lit ''100''" example_runtime] by simp
  have b: "load_blacklist example_runtime [?p \<mapsto> Malformed] (lit ''100'') = {}"
    using load_blacklist_fails_open [of "[?p \<mapsto> Malformed]" "lit ''100''" example_runtime]
    by simp
  have c: "load_blacklist example_runtime [?p \<mapsto> Text (lit ''[oops'')] (lit ''100'') = {}"
    using load_blacklist_fails_open
            [of "[?p \<mapsto> Text (lit ''[oops'')]" "lit ''100''" example_runtime] j
    by simp
  have d: "load_blacklist example_runtime [?p \<mapsto> Text (lit ''5'')] (lit ''100'') = {}"
    using load_blacklist_fails_open
            [of "[?p \<mapsto> Text (lit ''5'')]" "lit ''100''" example_runtime] k
    by simp
  from a b c d show ?thesis by simp
qed


section \<open>The group policy gate\<close>

lemma dropWhile_all: "list_all P xs \<Longrightarrow> dropWhile P (xs @ ys) = dropWhile P ys"
  by (induction xs) auto

lemma dropWhile_all_Nil: "list_all P xs \<Longrightarrow> dropWhile P xs = []"
  by (induction xs) auto

lemma strip_pad:
  assumes "list_all isspace a" and "list_all isspace b"
  shows "strip (a @ s @ b) = strip s"
proof -
  have front: "dropWhile isspace (a @ s @ b) = dropWhile isspace (s @ b)"
    using assms(1) by (rule dropWhile_all)
  have rb: "list_all isspace (rev b)"
    using assms(2) by (simp add: list_all_iff)
  show ?thesis
  proof (cases "list_all isspace s")
    case True
    have e1: "dropWhile isspace (s @ b) = dropWhile isspace b"
      using True by (rule dropWhile_all)
    have e2: "dropWhile isspace b = []"
      using assms(2) by (rule dropWhile_all_Nil)
    have e3: "dropWhile isspace s = []"
      using True by (rule dropWhile_all_Nil)
    show ?thesis
      unfolding strip_def front e1 e2 e3 by simp
  next
    case False
    then obtain x where "x \<in> set s" "\<not> isspace x"
      by (auto simp: list_all_iff)
    then have "dropWhile isspace (s @ b) = dropWhile isspace s @ b"
      by (rule dropWhile_append1)
    then have "rev (dropWhile isspace (a @ s @ b)) = rev b @ rev (dropWhile isspace s)"
      using front by simp
    then have "dropWhile isspace (rev (dropWhile isspace (a @ s @ b)))
               = dropWhile isspace (rev (dropWhile isspace s))"
      using rb by (simp add: dropWhile_all)
    then show ?thesis by (simp add: strip_def)
  qed
qed

lemma strip_all_space: "list_all isspace a \<Longrightarrow> strip a = []"
  by (simp add: strip_def dropWhile_all_Nil)

lemma group_allowed_init:
  "group_allowed (init r t cfg) g =
     (g \<noteq> [] \<and> (enable_group_whitelist cfg \<noteq> Some False \<longrightarrow>
        (\<exists>gid \<in> set (config_get (group_whitelist_entries cfg) []).
            truthy gid \<and> strip (py_str gid) = g)))"
  by (cases "enable_group_whitelist cfg")
     (auto simp: group_allowed_def init_def init_group_whitelist_def config_get_def)

lemma strip_examples:
  "strip (lit '' 200 '') = lit ''200''" "strip (lit '' 200'') = lit ''200''"
  "strip (lit ''100'') = lit ''100''"
  by (simp_all add: strip_def lit_def isspace_def)

lemma example_whitelist: "group_whitelist example_plugin = {lit ''100'', lit ''200''}"
  by (simp add: example_plugin_def example_config_def init_def init_group_whitelist_def
        config_get_def str_int_examples strip_examples)

lemma example_plugin_fields:
  "enforce_whitelist example_plugin" "notice_enabled example_plugin"
  "auto_approve_enabled example_plugin" "reject_reason example_plugin = lit ''blacklisted''"
  by (simp_all add: example_plugin_def example_config_def init_def config_get_def)

text \<open>
  C9, as the claim states it, fails: the entry \<^verbatim>\<open>" 200 "\<close> of the allow-list is
  trimmed when the plugin is built, so group \<^verbatim>\<open>200\<close> is in scope, but the group id of
  an event is compared as it is, and \<^verbatim>\<open>" 200"\<close>, which trims to the same string, is
  out of scope.
\<close>

theorem group_allowed_untrimmed_counterexample:
  "strip (lit '' 200'') = lit ''200''
   \<and> group_allowed example_plugin (lit ''200'')
   \<and> \<not> group_allowed example_plugin (lit '' 200'')"
  by (simp add: group_allowed_def example_whitelist example_plugin_fields strip_examples)

text \<open>
  C9, amended. For the plugin built from a configuration: \<^verbatim>\<open>_group_allowed\<close> is
  false for the empty group id; true for every other group id when enforcement is
  switched off; otherwise true exactly when the group id, as the event gave it, is the
  trimmed text of a truthy entry of the configured allow-list. White space around a
  configured entry does not change the result.
\<close>

theorem group_allowed_trims_entries:
  "\<not> group_allowed (init r t cfg) []
   \<and> (enable_group_whitelist cfg = Some False \<and> g \<noteq> [] \<longrightarrow> group_allowed (init r t cfg) g)
   \<and> (enable_group_whitelist cfg \<noteq> Some False \<and> g \<noteq> [] \<longrightarrow>
        group_allowed (init r t cfg) g =
          (\<exists>gid \<in> set (config_get (group_whitelist_entries cfg) []).
              truthy gid \<and> strip (py_str gid) = g))
   \<and> (list_all isspace a \<and> list_all isspace b \<longrightarrow>
        group_allowed
          (init r t (cfg\<lparr> group_whitelist_entries := Some (xs @ PStr (a @ s @ b) # ys) \<rparr>)) g
        = group_allowed
            (init r t (cfg\<lparr> group_whitelist_entries := Some (xs @ PStr s # ys) \<rparr>)) g)"
proof -
  have pad:
    "group_allowed
       (init r t (cfg\<lparr> group_whitelist_entries := Some (xs @ PStr (a @ s @ b) # ys) \<rparr>)) g
     = group_allowed
         (init r t (cfg\<lparr> group_whitelist_entries := Some (xs @ PStr s # ys) \<rparr>)) g"
    if ws: "list_all isspace a" "list_all isspace b"
  proof (cases "s = []")
    case True
    have "list_all isspace (a @ b)"
      using ws by simp
    then have "strip (a @ b) = []"
      by (rule strip_all_space)
    with True show ?thesis
      by (auto simp: group_allowed_init config_get_def)
  next
    case False
    have "strip (a @ s @ b) = strip s"
      using ws by (rule strip_pad)
    with False show ?thesis
      by (auto simp: group_allowed_init config_get_def)
  qed
  show ?thesis
    using pad by (simp add: group_allowed_init)
qed

theorem group_allowed_trims_entries_witness:
  "\<not> group_allowed example_plugin []
   \<and> group_allowed example_plugin (lit ''100'')
   \<and> group_allowed
        (init (lit ''refused'') (lit ''{member} left'')
           (example_config\<lparr> group_whitelist_entries :=
                               Some ([PInt 100] @ PStr (lit '' '' @ lit ''200'' @ lit '' '') # []) \<rparr>))
        (lit ''200'')
     = group_allowed
        (init (lit ''refused'') (lit ''{member} left'')
           (example_config\<lparr> group_whitelist_entries := Some ([PInt 100] @ PStr (lit ''200'') # []) \<rparr>))
        (lit ''200'')"
proof -
  have h1: "enable_group_whitelist example_config \<noteq> Some False \<and> lit ''100'' \<noteq> []"
    by (simp add: example_config_def)
  have h2: "list_all isspace (lit '' '') \<and> list_all isspace (lit '' '')"
    by (simp add: lit_def isspace_def)
  have v: "\<exists>gid \<in> set (config_get (group_whitelist_entries example_config) []).
             truthy gid \<and> strip (py_str gid) = lit ''100''"
    by (simp add: example_config_def config_get_def str_int_examples strip_examples)
  have a: "\<not> group_allowed example_plugin [] \<and> group_allowed example_plugin (lit ''100'')"
    using group_allowed_trims_entries
            [of "lit ''refused''" "lit ''{member} left''" example_config "lit ''100''"] h1 v
    unfolding example_plugin_def by blast
  have b: "group_allowed
        (init (lit ''refused'') (lit ''{member} left'')
           (example_config\<lparr> group_whitelist_entries :=
                               Some ([PInt 100] @ PStr (lit '' '' @ lit ''200'' @ lit '' '') # []) \<rparr>))
        (lit ''200'')
     = group_allowed
        (init (lit ''refused'') (lit ''{member} left'')
           (example_config\<lparr> group_whitelist_entries := Some ([PInt 100] @ PStr (lit ''200'') # []) \<rparr>))
        (lit ''200'')"
    using group_allowed_trims_entries
            [of "lit ''refused''" "lit ''{member} left''" example_config "lit ''200''"
                "lit '' ''" "lit '' ''" "[PInt 100]" "lit ''200''" "[]"] h2
    by blast
  from a b show ?thesis by blast
qed


section \<open>Handling events\<close>

lemma str_nat_nonempty: "str_nat n \<noteq> []"
  by (induction n rule: str_nat.induct) (subst str_nat.simps, simp)

lemma str_int_nonempty: "str_int i \<noteq> []"
  by (simp add: str_int_def str_nat_nonempty)

lemma py_str_truthy: "truthy v \<Longrightarrow> py_str v \<noteq> []"
  by (cases v) (auto simp: str_int_nonempty)

lemma event_user_id_empty:
  "event_user_id raw = [] \<longleftrightarrow> \<not> truthy (dict_get raw (lit ''user_id''))"
  by (auto simp: event_user_id_def py_or_def py_str_truthy)

lemma group_allowed_nonempty: "group_allowed self g \<Longrightarrow> g \<noteq> []"
  by (auto simp: group_allowed_def)

lemma dispatch_request:
  assumes "raw_message ev = Some raw"
    and "dict_get raw (lit ''post_type'') = PStr (lit ''request'')"
    and "dict_get raw (lit ''request_type'') = PStr (lit ''group'')"
  shows "handle_group_events self rt e fs ev = handle_group_request self rt e fs ev raw"
proof -
  have "raw \<noteq> []" using assms(2) by (auto simp: dict_get_def)
  then show ?thesis
    using assms by (simp add: handle_group_events_def extract_raw_payload_def)
qed

text \<open>The example request with a user id and without a group id, evaluated.\<close>

lemma request_fields:
  "dict_get ((lit ''user_id'', v) # example_request) (lit ''post_type'') = PStr (lit ''request'')"
  "dict_get ((lit ''user_id'', v) # example_request) (lit ''request_type'') = PStr (lit ''group'')"
  "dict_get ((lit ''user_id'', v) # example_request) (lit ''user_id'') = v"
  "dict_get ((lit ''user_id'', v) # example_request) (lit ''flag'') = PStr (lit ''f1'')"
  "dict_get ((lit ''user_id'', v) # example_request) (lit ''group_id'') = PNone"
  "dict_get_default ((lit ''user_id'', v) # example_request) (lit ''sub_type'') d = PStr (lit ''add'')"
  by (simp_all add: dict_get_def dict_get_default_def example_request_def)

lemma request_ids:
  "event_group_id (example_event raw) ((lit ''user_id'', v) # example_request) = lit ''100''"
  "event_user_id ((lit ''user_id'', PInt 42) # example_request) = lit ''42''"
  "event_user_id ((lit ''user_id'', PInt 43) # example_request) = lit ''43''"
  by (simp_all add: event_group_id_def event_user_id_def request_fields py_or_def
        example_event_def str_int_examples)

lemma format_member_examples:
  "format_member example_runtime (lit ''42'') = lit ''[CQ:at,qq=42]''"
  "format_member example_runtime (lit ''43'') = lit ''[CQ:at,qq=43]''"
  by (simp_all add: format_member_def isdigit_def isdigit_char_def lit_def)

lemma example_group_allowed: "group_allowed example_plugin (lit ''100'')"
  by (simp add: group_allowed_def example_whitelist example_plugin_fields)

lemma example_platform:
  "platform_name (example_event raw) = lit ''aiocqhttp''" "is_aiocqhttp_event (example_event raw)"
  "raw_message (example_event raw) = Some raw" "aiocqhttp_imported example_env"
  "call_action_ok example_env"
  by (simp_all add: example_event_def example_env_def)

text \<open>
  C2. A join request of a group in scope, from a user on that group's blacklist: the
  adapter \<^verbatim>\<open>_process_group_request\<close> is invoked once, to reject; when it reaches the
  platform (an aiocqhttp event), the remote call carries the request's flag and the
  configured reject reason; and the rejection notice is yielded exactly when notices are
  enabled, whatever the adapter returned. Nothing is written.
\<close>

theorem blacklisted_request_rejected:
  assumes "raw_message ev = Some raw"
    and "dict_get raw (lit ''post_type'') = PStr (lit ''request'')"
    and "dict_get raw (lit ''request_type'') = PStr (lit ''group'')"
    and "truthy (dict_get raw (lit ''user_id''))"
    and "truthy (dict_get raw (lit ''flag''))"
    and "group_allowed self (event_group_id ev raw)"
    and "in_blacklist rt fs (event_group_id ev raw) (event_user_id raw)"
  shows "handle_group_events self rt e fs ev =
           \<lparr> store = fs,
             messages = (if notice_enabled self
                         then [RejectNotice (format_member rt (event_user_id raw))] else []),
             adapter =
               [\<lparr> approve_arg = False,
                  remote_call =
                    (if platform_name ev = lit ''aiocqhttp'' \<and> aiocqhttp_imported e
                        \<and> is_aiocqhttp_event ev
                     then Some \<lparr> flag = dict_get raw (lit ''flag''),
                                 sub_type = dict_get_default raw (lit ''sub_type'') (PStr (lit ''add'')),
                                 approve = False,
                                 reason = Some (reject_reason self) \<rparr>
                     else None),
                  success = (platform_name ev = lit ''aiocqhttp'' \<and> aiocqhttp_imported e
                             \<and> is_aiocqhttp_event ev \<and> call_action_ok e) \<rparr>],
             raised = None \<rparr>"
proof -
  have g: "event_group_id ev raw \<noteq> []"
    using assms(6) by (rule group_allowed_nonempty)
  have u: "event_user_id raw \<noteq> []"
    using assms(4) by (simp add: event_user_id_empty)
  have "handle_group_events self rt e fs ev = handle_group_request self rt e fs ev raw"
    using assms(1-3) by (rule dispatch_request)
  also have "\<dots> = \<lparr> store = fs,
             messages = (if notice_enabled self
                         then [RejectNotice (format_member rt (event_user_id raw))] else []),
             adapter = [process_group_request self e ev (dict_get raw (lit ''flag''))
                          (dict_get_default raw (lit ''sub_type'') (PStr (lit ''add''))) False],
             raised = None \<rparr>"
    using g u assms(5-7) by (simp add: handle_group_request_def Let_def)
  finally show ?thesis
    by (auto simp: process_group_request_def Let_def)
qed

theorem blacklisted_request_rejected_witness:
  "handle_group_events example_plugin example_runtime example_env example_store
     (example_event ((lit ''user_id'', PInt 42) # example_request)) =
     \<lparr> store = example_store,
       messages = [RejectNotice (lit ''[CQ:at,qq=42]'')],
       adapter = [\<lparr> approve_arg = False,
                    remote_call = Some \<lparr> flag = PStr (lit ''f1''), sub_type = PStr (lit ''add''),
                                         approve = False, reason = Some (lit ''blacklisted'') \<rparr>,
                    success = True \<rparr>],
       raised = None \<rparr>"
proof -
  let ?raw = "(lit ''user_id'', PInt 42) # example_request"
  let ?ev = "example_event ?raw"
  have h1: "raw_message ?ev = Some ?raw" by (rule example_platform)
  have h2: "dict_get ?raw (lit ''post_type'') = PStr (lit ''request'')" by (rule request_fields)
  have h3: "dict_get ?raw (lit ''request_type'') = PStr (lit ''group'')" by (rule request_fields)
  have h4: "truthy (dict_get ?raw (lit ''user_id''))" by (simp add: request_fields)
  have h5: "truthy (dict_get ?raw (lit ''flag''))" by (simp add: request_fields)
  have h6: "group_allowed example_plugin (event_group_id ?ev ?raw)"
    by (simp add: request_ids example_group_allowed)
  have h7: "in_blacklist example_runtime example_store (event_group_id ?ev ?raw) (event_user_id ?raw)"
    by (simp add: in_blacklist_def request_ids load_example_store)
  show ?thesis
    using blacklisted_request_rejected [OF h1 h2 h3 h4 h5 h6 h7, of example_env]
    by (simp add: request_fields request_ids format_member_examples example_plugin_fields
          example_platform)
qed

text \<open>
  C3. A join request of a group in scope, from a user who is not on that group's
  blacklist, with automatic approval enabled: the adapter is invoked once, to approve,
  and the approval notice is yielded exactly when the adapter returned success and
  notices are enabled; the adapter returns success only when the event is an aiocqhttp
  event and the remote call did not raise. Nothing is written.
\<close>

theorem clean_request_approved:
  assumes "raw_message ev = Some raw"
    and "dict_get raw (lit ''post_type'') = PStr (lit ''request'')"
    and "dict_get raw (lit ''request_type'') = PStr (lit ''group'')"
    and "truthy (dict_get raw (lit ''user_id''))"
    and "truthy (dict_get raw (lit ''flag''))"
    and "group_allowed self (event_group_id ev raw)"
    and "\<not> in_blacklist rt fs (event_group_id ev raw) (event_user_id raw)"
    and "auto_approve_enabled self"
  shows "handle_group_events self rt e fs ev =
           \<lparr> store = fs,
             messages = (if (platform_name ev = lit ''aiocqhttp'' \<and> aiocqhttp_imported e
                             \<and> is_aiocqhttp_event ev \<and> call_action_ok e) \<and> notice_enabled self
                         then [ApproveNotice (format_member rt (event_user_id raw))] else []),
             adapter =
               [\<lparr> approve_arg = True,
                  remote_call =
                    (if platform_name ev = lit ''aiocqhttp'' \<and> aiocqhttp_imported e
                        \<and> is_aiocqhttp_event ev
                     then Some \<lparr> flag = dict_get raw (lit ''flag''),
                                 sub_type = dict_get_default raw (lit ''sub_type'') (PStr (lit ''add'')),
                                 approve = True,
                                 reason = None \<rparr>
                     else None),
                  success = (platform_name ev = lit ''aiocqhttp'' \<and> aiocqhttp_imported e
                             \<and> is_aiocqhttp_event ev \<and> call_action_ok e) \<rparr>],
             raised = None \<rparr>"
proof -
  have g: "event_group_id ev raw \<noteq> []"
    using assms(6) by (rule group_allowed_nonempty)
  have u: "event_user_id raw \<noteq> []"
    using assms(4) by (simp add: event_user_id_empty)
  let ?call = "process_group_request self e ev (dict_get raw (lit ''flag''))
                 (dict_get_default raw (lit ''sub_type'') (PStr (lit ''add''))) True"
  have "handle_group_events self rt e fs ev = handle_group_request self rt e fs ev raw"
    using assms(1-3) by (rule dispatch_request)
  also have "\<dots> = \<lparr> store = fs,
             messages = (if success ?call \<and> notice_enabled self
                         then [ApproveNotice (format_member rt (event_user_id raw))] else []),
             adapter = [?call],
             raised = None \<rparr>"
    using g u assms(5-8) by (simp add: handle_group_request_def Let_def)
  finally show ?thesis
    by (auto simp: process_group_request_def Let_def)
qed

theorem clean_request_approved_witness:
  "messages (handle_group_events example_plugin example_runtime example_env example_store
       (example_event ((lit ''user_id'', PInt 43) # example_request)))
     = [ApproveNotice (lit ''[CQ:at,qq=43]'')]
   \<and> messages (handle_group_events example_plugin example_runtime
       (example_env\<lparr> call_action_ok := False \<rparr>)
       example_store (example_event ((lit ''user_id'', PInt 43) # example_request)))
     = []"
proof -
  let ?raw = "(lit ''user_id'', PInt 43) # example_request"
  let ?ev = "example_event ?raw"
  let ?failing = "example_env\<lparr> call_action_ok := False \<rparr>"
  have h1: "raw_message ?ev = Some ?raw" by (rule example_platform)
  have h2: "dict_get ?raw (lit ''post_type'') = PStr (lit ''request'')" by (rule request_fields)
  have h3: "dict_get ?raw (lit ''request_type'') = PStr (lit ''group'')" by (rule request_fields)
  have h4: "truthy (dict_get ?raw (lit ''user_id''))" by (simp add: request_fields)
  have h5: "truthy (dict_get ?raw (lit ''flag''))" by (simp add: request_fields)
  have h6: "group_allowed example_plugin (event_group_id ?ev ?raw)"
    by (simp add: request_ids example_group_allowed)
  have h7: "\<not> in_blacklist example_runtime example_store (event_group_id ?ev ?raw) (event_user_id ?raw)"
    by (simp add: in_blacklist_def request_ids load_example_store)
  have h8: "auto_approve_enabled example_plugin" by (rule example_plugin_fields)
  have ok: "messages (handle_group_events example_plugin example_runtime example_env example_store ?ev)
              = [ApproveNotice (lit ''[CQ:at,qq=43]'')]"
    using clean_request_approved [OF h1 h2 h3 h4 h5 h6 h7 h8, of example_env]
    by (simp add: request_ids format_member_examples example_plugin_fields example_platform)
  have ko: "messages (handle_group_events example_plugin example_runtime ?failing example_store ?ev)
              = []"
    using clean_request_approved [OF h1 h2 h3 h4 h5 h6 h7 h8, of ?failing]
    by simp
  from ok ko show ?thesis by simp
qed

text \<open>
  C5. With allow-list enforcement on and an empty allow-list, handling any event
  leaves the file system as it was, yields no message, invokes no adapter and raises
  nothing.
\<close>

theorem empty_allow_list_blocks_all:
  assumes "enforce_whitelist self" and "group_whitelist self = {}"
  shows "handle_group_events self rt e fs ev = nothing fs"
proof -
  have "\<not> group_allowed self g" for g
    using assms by (simp add: group_allowed_def)
  then show ?thesis
    by (simp add: handle_group_events_def handle_group_decrease_def handle_group_request_def
          extract_raw_payload_def Let_def split: option.splits)
qed

theorem empty_allow_list_blocks_all_witness:
  "handle_group_events strict_plugin example_runtime example_env example_store
     (example_event ((lit ''group_id'', PInt 100) # (lit ''user_id'', PInt 7) # example_leave))
     = \<lparr> store = example_store, messages = [], adapter = [], raised = None \<rparr>
   \<and> handle_group_events strict_plugin example_runtime example_env example_store
     (example_event ((lit ''group_id'', PInt 100) # (lit ''user_id'', PInt 42) # example_request))
     = \<lparr> store = example_store, messages = [], adapter = [], raised = None \<rparr>"
proof -
  have h1: "enforce_whitelist strict_plugin"
    by (simp add: strict_plugin_def example_config_def init_def config_get_def)
  have h2: "group_whitelist strict_plugin = {}"
    by (simp add: strict_plugin_def example_config_def init_def config_get_def
          init_group_whitelist_def)
  show ?thesis
    using empty_allow_list_blocks_all [OF h1 h2]
    by (simp add: nothing_def)
qed




text \<open>
  C10. \<^verbatim>\<open>_handle_group_request\<close> returns the file system it was given and raises
  nothing, whatever the request, the configuration and the platform: every group's
  persisted blacklist is the same after a join request as before. The same holds for
  \<^verbatim>\<open>handle_group_events\<close> on every payload whose \<^verbatim>\<open>post_type\<close> is \<^verbatim>\<open>request\<close>.
\<close>

theorem join_request_keeps_store:
  "store (handle_group_request self rt e fs ev raw) = fs
   \<and> raised (handle_group_request self rt e fs ev raw) = None
   \<and> (\<forall>g. load_blacklist rt (store (handle_group_request self rt e fs ev raw)) g
            = load_blacklist rt fs g)
   \<and> (raw_message ev = Some raw \<and> dict_get raw (lit ''post_type'') = PStr (lit ''request'')
        \<longrightarrow> store (handle_group_events self rt e fs ev) = fs)"
proof -
  have a: "store (handle_group_request self rt e fs ev raw) = fs"
    by (simp add: handle_group_request_def nothing_def Let_def)
  have b: "raised (handle_group_request self rt e fs ev raw) = None"
    by (simp add: handle_group_request_def nothing_def Let_def)
  have c: "store (handle_group_events self rt e fs ev) = fs"
    if "raw_message ev = Some raw" "dict_get raw (lit ''post_type'') = PStr (lit ''request'')"
    using that a by (simp add: handle_group_events_def extract_raw_payload_def nothing_def Let_def)
  from a b c show ?thesis by simp
qed

theorem join_request_keeps_store_witness:
  "store (handle_group_events example_plugin example_runtime example_env example_store
            (example_event ((lit ''user_id'', PInt 42) # example_request))) = example_store
   \<and> store (handle_group_events example_plugin example_runtime example_env example_store
            (example_event ((lit ''user_id'', PInt 43) # example_request))) = example_store"
proof -
  let ?r42 = "(lit ''user_id'', PInt 42) # example_request"
  let ?r43 = "(lit ''user_id'', PInt 43) # example_request"
  have r: "raw_message (example_event raw) = Some raw" for raw
    by (rule example_platform)
  have a: "dict_get ?r42 (lit ''post_type'') = PStr (lit ''request'')" by (rule request_fields)
  have b: "dict_get ?r43 (lit ''post_type'') = PStr (lit ''request'')" by (rule request_fields)
  show ?thesis
    using join_request_keeps_store
            [of example_plugin example_runtime example_env example_store "example_event ?r42" ?r42]
          join_request_keeps_store
            [of example_plugin example_runtime example_env example_store "example_event ?r43" ?r43]
          r [of ?r42] r [of ?r43] a b
    by blast
qed

text \<open>
  C7, as the claim states it, fails: a join request whose payload has no group id, inside
  a message of group \<^verbatim>\<open>100\<close>, is not dropped. The group id of the message is taken,
  and the blacklisted user is rejected with a notice.
\<close>

theorem request_fallback_counterexample:
  "map_of ((lit ''user_id'', PInt 42) # example_request) (lit ''group_id'') = None
   \<and> messages (handle_group_events example_plugin example_runtime example_env example_store
        (example_event ((lit ''user_id'', PInt 42) # example_request)))
       = [RejectNotice (lit ''[CQ:at,qq=42]'')]
   \<and> map approve_arg (adapter (handle_group_events example_plugin example_runtime example_env
        example_store (example_event ((lit ''user_id'', PInt 42) # example_request))))
       = [False]"
proof -
  let ?raw = "(lit ''user_id'', PInt 42) # example_request"
  have "handle_group_events example_plugin example_runtime example_env example_store
          (example_event ?raw)
        = handle_group_request example_plugin example_runtime example_env example_store
            (example_event ?raw) ?raw"
    by (intro dispatch_request example_platform request_fields)
  then show ?thesis
    by (simp add: handle_group_request_def process_group_request_def Let_def request_fields
          request_ids example_group_allowed in_blacklist_def load_example_store
          example_plugin_fields example_platform format_member_examples)
       (simp add: example_request_def)
qed

text \<open>
  C7, amended. The fallback is the same for both kinds of event: when the payload has
  no (truthy) group id and the enclosing message has the group id \<open>v\<close>, a leave notice
  and a join request are each handled exactly as if the payload had carried \<open>v\<close>.
\<close>

theorem group_id_fallback_both:
  assumes "\<not> truthy (dict_get raw (lit ''group_id''))" and "msg_group_id ev = Some v"
  shows "handle_group_decrease self rt e fs ev raw
           = handle_group_decrease self rt e fs ev ((lit ''group_id'', v) # raw)
       \<and> handle_group_request self rt e fs ev raw
           = handle_group_request self rt e fs ev ((lit ''group_id'', v) # raw)"
proof -
  let ?raw' = "(lit ''group_id'', v) # raw"
  have g: "event_group_id ev ?raw' = event_group_id ev raw"
    using assms by (simp add: event_group_id_def dict_get_def py_or_def)
  have u: "event_user_id ?raw' = event_user_id raw"
    by (simp add: event_user_id_def dict_get_def)
  have f: "dict_get ?raw' (lit ''flag'') = dict_get raw (lit ''flag'')"
    by (simp add: dict_get_def)
  have s: "dict_get_default ?raw' (lit ''sub_type'') d = dict_get_default raw (lit ''sub_type'') d"
    for d
    by (simp add: dict_get_default_def)
  show ?thesis
    by (simp only: handle_group_decrease_def handle_group_request_def g u f s)
qed

theorem group_id_fallback_both_witness:
  "handle_group_decrease example_plugin example_runtime example_env example_store
     (example_event ((lit ''user_id'', PInt 7) # example_leave))
     ((lit ''user_id'', PInt 7) # example_leave)
   = handle_group_decrease example_plugin example_runtime example_env example_store
     (example_event ((lit ''user_id'', PInt 7) # example_leave))
     ((lit ''group_id'', PStr (lit ''100'')) # (lit ''user_id'', PInt 7) # example_leave)
   \<and> handle_group_request example_plugin example_runtime example_env example_store
     (example_event ((lit ''user_id'', PInt 42) # example_request))
     ((lit ''user_id'', PInt 42) # example_request)
   = handle_group_request example_plugin example_runtime example_env example_store
     (example_event ((lit ''user_id'', PInt 42) # example_request))
     ((lit ''group_id'', PStr (lit ''100'')) # (lit ''user_id'', PInt 42) # example_request)"
proof -
  let ?leave = "(lit ''user_id'', PInt 7) # example_leave"
  let ?request = "(lit ''user_id'', PInt 42) # example_request"
  have l1: "\<not> truthy (dict_get ?leave (lit ''group_id''))"
    by (simp add: dict_get_def example_leave_def)
  have r1: "\<not> truthy (dict_get ?request (lit ''group_id''))"
    by (simp add: request_fields)
  have h2: "msg_group_id (example_event raw) = Some (PStr (lit ''100''))" for raw
    by (simp add: example_event_def)
  show ?thesis
    using group_id_fallback_both [OF l1 h2] group_id_fallback_both [OF r1 h2] by blast
qed

end
